theory Spec2Isabelle
  imports Complex_Main
begin

section \<open>Vehicle API service: constants and data\<close>

text \<open>
  The service of \<^verbatim>\<open>vehicle-api-service/main.py\<close>: one dictionary
  \<^verbatim>\<open>vehicle_state\<close>, a background loop that advances it once per second, and
  HTTP handlers that edit it. Python numbers are modelled by their exact value:
  \<^typ>\<open>int\<close> for the integers and \<^typ>\<open>rat\<close> for the floats (so \<open>0.1\<close> is the
  rational one tenth). The reading of the clock, \<^verbatim>\<open>datetime.now().isoformat()\<close>,
  is a string handed to the operation that reads it.
\<close>

type_synonym timestamp = string

definition MIN_BATTERY_THRESHOLD :: rat where
  "MIN_BATTERY_THRESHOLD = 20"

definition HIGH_RPM_THRESHOLD :: int where
  "HIGH_RPM_THRESHOLD = 3000"

definition MAX_TEMPERATURE :: rat where
  "MAX_TEMPERATURE = 80"

definition MIN_TEMPERATURE :: rat where
  "MIN_TEMPERATURE = 25"

definition POWER_CONSUMPTION_RATE :: "int \<rightharpoonup> rat" where
  "POWER_CONSUMPTION_RATE = map_of [(0, 0), (1, 100), (2, 300), (3, 600), (4, 1000)]"

definition RPM_SETTINGS :: "int \<rightharpoonup> int" where
  "RPM_SETTINGS = map_of [(0, 0), (1, 1500), (2, 3000), (3, 4500), (4, 6000)]"

definition GEAR_RATIOS :: "int \<rightharpoonup> string" where
  "GEAR_RATIOS = map_of [(0, ''N/N''), (1, ''4.5:1''), (2, ''6.2:1''), (3, ''8.1:1''), (4, ''10.3:1'')]"

text \<open>
  The dictionary \<^verbatim>\<open>vehicle_state\<close>. The field \<^verbatim>\<open>power\<close> is named
  \<open>power_kw\<close> here, since \<open>power\<close> is HOL's exponentiation.
\<close>

record vehicle_record =
  parking_brake :: bool
  check_engine :: bool
  motor_status :: bool
  battery_low :: bool
  power_kw :: rat
  motor_rpm :: int
  gear_ratio :: string
  battery_percentage :: rat
  battery_temperature :: rat
  motor_speed_setting :: int
  is_charging :: bool
  last_update :: timestamp

text \<open>
  The dictionary literal that the module writes four times (the seed of the stored
  document, the initial \<^verbatim>\<open>vehicle_state\<close>, and the one of \<^verbatim>\<open>reset_state\<close>).
\<close>

definition initial_state :: "timestamp \<Rightarrow> vehicle_record" where
  "initial_state now =
     \<lparr> parking_brake = False,
       check_engine = False,
       motor_status = False,
       battery_low = False,
       power_kw = 0,
       motor_rpm = 0,
       gear_ratio = ''N/N'',
       battery_percentage = 100,
       battery_temperature = 25,
       motor_speed_setting = 0,
       is_charging = False,
       last_update = now \<rparr>"

text \<open>
  The process state: the global dictionary and the document
  \<^verbatim>\<open>vehiclestate/current_state\<close> of the store (\<open>None\<close> when the document does not
  exist). \<^verbatim>\<open>doc_ref.set(vehicle_state)\<close> overwrites the document with a copy of the
  dictionary; the store is taken to accept every write.
\<close>

record system =
  vehicle_state :: vehicle_record
  current_state :: "vehicle_record option"

datatype exn = KeyError | AttributeError

text \<open>A parsed request body, the value \<^verbatim>\<open>request.get_json()\<close> returns
  (\<open>JNull\<close> is Python's \<^verbatim>\<open>None\<close>); an object keeps its members in document order.\<close>

datatype json =
    JNull
  | JBool bool
  | JInt int
  | JFloat rat
  | JStr string
  | JArr "json list"
  | JObj "(string \<times> json) list"

text \<open>\<^verbatim>\<open>data.get(key, default)\<close> on the dictionary built from an object: of a
  repeated member the last one counts.\<close>

definition dict_get :: "(string \<times> json) list \<Rightarrow> string \<Rightarrow> json \<Rightarrow> json" where
  "dict_get members key dflt =
     (case map_of (rev members) key of None \<Rightarrow> dflt | Some v \<Rightarrow> v)"

text \<open>Python's \<^verbatim>\<open>==\<close> between a parsed value and an integer: \<^verbatim>\<open>True\<close> equals 1,
  \<^verbatim>\<open>False\<close> equals 0, a float equals the integer of the same value, and nothing else
  equals an integer.\<close>

fun py_eq_int :: "json \<Rightarrow> int \<Rightarrow> bool" where
  "py_eq_int (JInt m) n = (m = n)"
| "py_eq_int (JBool b) n = ((if b then 1 else 0) = n)"
| "py_eq_int (JFloat r) n = (r = of_int n)"
| "py_eq_int _ n = False"

text \<open>Python's truth value of a parsed value.\<close>

fun truthy :: "json \<Rightarrow> bool" where
  "truthy JNull = False"
| "truthy (JBool b) = b"
| "truthy (JInt n) = (n \<noteq> 0)"
| "truthy (JFloat r) = (r \<noteq> 0)"
| "truthy (JStr s) = (s \<noteq> [])"
| "truthy (JArr xs) = (xs \<noteq> [])"
| "truthy (JObj members) = (members \<noteq> [])"

text \<open>The responses of the handlers: \<^verbatim>\<open>jsonify({"error": msg}), code\<close>, and the four
  bodies sent with status 200.\<close>

datatype response =
    ErrorResponse nat string
  | SpeedUpdated json int rat
  | ChargingUpdated json rat
  | StateReset
  | StateRecord vehicle_record

section \<open>The operations\<close>

definition create_current_state_document ::
    "timestamp \<Rightarrow> vehicle_record option \<Rightarrow> vehicle_record option" where
  "create_current_state_document now doc =
     (case doc of None \<Rightarrow> Some (initial_state now) | Some d \<Rightarrow> Some d)"

definition calculate_power_consumption :: "int \<Rightarrow> rat \<Rightarrow> exn + rat" where
  "calculate_power_consumption speed_setting battery =
     (if battery \<le> 0 then Inr 0
      else case POWER_CONSUMPTION_RATE speed_setting of
             None \<Rightarrow> Inl KeyError
           | Some base_power \<Rightarrow>
               (let battery_factor = max (1 / 2) (battery / 100)
                in Inr (base_power * battery_factor)))"

text \<open>
  One iteration of the loop of \<^verbatim>\<open>update_vehicle_state\<close>. \<open>r1\<close> and \<open>r2\<close> are
  the two draws of \<^verbatim>\<open>random.random()\<close> and \<open>now\<close> the clock. An exception inside the
  iteration is logged and the iteration abandoned; the only one the arithmetic can raise
  is the \<^verbatim>\<open>KeyError\<close> of the power table, before anything has been written.
\<close>

definition update_vehicle_state :: "rat \<Rightarrow> rat \<Rightarrow> timestamp \<Rightarrow> system \<Rightarrow> system" where
  "update_vehicle_state r1 r2 now sys =
     (let vs = vehicle_state sys;
          simulated =
            (if \<not> is_charging vs \<and> motor_speed_setting vs > 0 then
               (case calculate_power_consumption (motor_speed_setting vs) (battery_percentage vs) of
                  Inl e \<Rightarrow> Inl e
                | Inr power_consumption \<Rightarrow>
                    (let consumption_rate = power_consumption * (1 / 1000) * 1;
                         vs = vs\<lparr>battery_percentage :=
                                  max 0 (battery_percentage vs - consumption_rate)\<rparr>;
                         target_temp = MIN_TEMPERATURE +
                           (MAX_TEMPERATURE - MIN_TEMPERATURE) * of_int (motor_speed_setting vs) / 4
                     in Inr (if battery_temperature vs < target_temp
                             then vs\<lparr>battery_temperature :=
                                       min target_temp (battery_temperature vs + 1 / 10)\<rparr>
                             else vs)))
             else if is_charging vs then
               (let charge_rate = (if battery_percentage vs < 20 then 4 / 10 else 2 / 10);
                    vs = vs\<lparr>battery_percentage :=
                             min 100 (battery_percentage vs + charge_rate)\<rparr>
                in Inr (vs\<lparr>battery_temperature :=
                             max MIN_TEMPERATURE (battery_temperature vs - 5 / 100)\<rparr>))
             else Inr vs)
      in case simulated of
           Inl e \<Rightarrow> sys
         | Inr vs \<Rightarrow>
             (let vs = vs\<lparr>battery_low := battery_percentage vs < MIN_BATTERY_THRESHOLD\<rparr>;
                  vs = vs\<lparr>motor_status := motor_rpm vs > HIGH_RPM_THRESHOLD\<rparr>;
                  vs = (if r1 < 1 / 1000 then vs\<lparr>parking_brake := \<not> parking_brake vs\<rparr> else vs);
                  vs = (if r2 < 5 / 10000 then vs\<lparr>check_engine := \<not> check_engine vs\<rparr> else vs);
                  vs = vs\<lparr>last_update := now\<rparr>
              in \<lparr>vehicle_state = vs, current_state = Some vs\<rparr>))"

definition get_vehicle_state :: "system \<Rightarrow> response" where
  "get_vehicle_state sys =
     (case current_state sys of
        Some doc \<Rightarrow> StateRecord doc
      | None \<Rightarrow> ErrorResponse 404 ''Vehicle state not found'')"

text \<open>
  \<^verbatim>\<open>set_motor_speed\<close>. A body that is neither \<^verbatim>\<open>None\<close> nor a dictionary has no
  \<^verbatim>\<open>get\<close>: the \<^verbatim>\<open>AttributeError\<close> is caught and answered with 500, as is a
  \<^verbatim>\<open>KeyError\<close> of a table, after the assignments made before it. A speed given as
  \<^verbatim>\<open>true\<close> or \<^verbatim>\<open>2.0\<close> passes the membership test and indexes the tables as the
  integer it equals; the dictionary keeps that integer here, the response the value sent.
\<close>

definition set_motor_speed :: "json \<Rightarrow> system \<Rightarrow> response \<times> system" where
  "set_motor_speed data sys =
     (case data of
        JNull \<Rightarrow> (ErrorResponse 400 ''Invalid JSON payload'', sys)
      | JObj members \<Rightarrow>
          (let speed_setting = dict_get members ''speed'' (JInt 0)
           in case find (py_eq_int speed_setting) [0, 1, 2, 3, 4] of
                None \<Rightarrow> (ErrorResponse 400 ''Invalid speed setting (must be 0-4)'', sys)
              | Some speed \<Rightarrow>
                  (let vs = vehicle_state sys
                   in if is_charging vs then
                        (ErrorResponse 400 ''Cannot change speed while charging'', sys)
                      else if battery_percentage vs \<le> 0 then
                        (ErrorResponse 400 ''Battery depleted'', sys)
                      else if parking_brake vs then
                        (ErrorResponse 400 ''Cannot operate motor while parking brake is engaged'', sys)
                      else
                        (let vs = vs\<lparr>motor_speed_setting := speed\<rparr>
                         in case RPM_SETTINGS speed of
                              None \<Rightarrow> (ErrorResponse 500 ''Internal server error'',
                                        sys\<lparr>vehicle_state := vs\<rparr>)
                            | Some rpm \<Rightarrow>
                                (let vs = vs\<lparr>motor_rpm := rpm\<rparr>
                                 in case calculate_power_consumption speed (battery_percentage vs) of
                                      Inl e \<Rightarrow> (ErrorResponse 500 ''Internal server error'',
                                                sys\<lparr>vehicle_state := vs\<rparr>)
                                    | Inr p \<Rightarrow>
                                        (let vs = vs\<lparr>power_kw := p\<rparr>;
                                             vs = vs\<lparr>motor_status := motor_rpm vs > HIGH_RPM_THRESHOLD\<rparr>
                                         in case GEAR_RATIOS speed of
                                              None \<Rightarrow> (ErrorResponse 500 ''Internal server error'',
                                                        sys\<lparr>vehicle_state := vs\<rparr>)
                                            | Some gear \<Rightarrow>
                                                (let vs = vs\<lparr>gear_ratio := gear\<rparr>
                                                 in (SpeedUpdated speed_setting (motor_rpm vs) (power_kw vs),
                                                     \<lparr>vehicle_state = vs, current_state = Some vs\<rparr>)))))))
      | _ \<Rightarrow> (ErrorResponse 500 ''Internal server error'', sys))"

text \<open>
  \<^verbatim>\<open>toggle_charging\<close>. Only the truth value of the flag is ever tested; the
  dictionary keeps that truth value here, the response the value sent.
\<close>

definition toggle_charging :: "json \<Rightarrow> system \<Rightarrow> response \<times> system" where
  "toggle_charging data sys =
     (case data of
        JNull \<Rightarrow> (ErrorResponse 400 ''Invalid JSON payload'', sys)
      | JObj members \<Rightarrow>
          (let charging = dict_get members ''charging'' (JBool False);
               vs = vehicle_state sys
           in if motor_speed_setting vs > 0 \<and> truthy charging then
                (ErrorResponse 400 ''Cannot start charging while motor is running'', sys)
              else if battery_percentage vs \<ge> 100 \<and> truthy charging then
                (ErrorResponse 400 ''Battery is already full'', sys)
              else
                (let vs = vs\<lparr>is_charging := truthy charging\<rparr>;
                     vs = (if truthy charging
                           then vs\<lparr>motor_speed_setting := 0, motor_rpm := 0, power_kw := - 5\<rparr>
                           else vs\<lparr>power_kw := 0\<rparr>)
                 in (ChargingUpdated charging (battery_percentage vs),
                     \<lparr>vehicle_state = vs, current_state = Some vs\<rparr>)))
      | _ \<Rightarrow> (ErrorResponse 500 ''Internal server error'', sys))"

definition reset_state :: "timestamp \<Rightarrow> system \<Rightarrow> response \<times> system" where
  "reset_state now sys =
     (let vs = initial_state now
      in (StateReset, \<lparr>vehicle_state = vs, current_state = Some vs\<rparr>))"

section \<open>Commands and runs\<close>

text \<open>The commands of the command surface are the handlers at the request bodies the
  interface documents: \<^verbatim>\<open>{"speed": n}\<close> and \<^verbatim>\<open>{"charging": b}\<close>.\<close>

definition SetMotorSpeed :: "int \<Rightarrow> system \<Rightarrow> response \<times> system" where
  "SetMotorSpeed speed = set_motor_speed (JObj [(''speed'', JInt speed)])"

definition ToggleCharging :: "bool \<Rightarrow> system \<Rightarrow> response \<times> system" where
  "ToggleCharging charging = toggle_charging (JObj [(''charging'', JBool charging)])"

definition Reset :: "timestamp \<Rightarrow> system \<Rightarrow> response \<times> system" where
  "Reset = reset_state"

text \<open>The module's start: the document is seeded in an empty store at \<open>t_doc\<close>, the
  dictionary is created at \<open>t_mem\<close>.\<close>

definition startup :: "timestamp \<Rightarrow> timestamp \<Rightarrow> system" where
  "startup t_doc t_mem =
     \<lparr>vehicle_state = initial_state t_mem,
      current_state = create_current_state_document t_doc None\<rparr>"

text \<open>What happens to the process, one operation after the other: an iteration of the
  loop, or a request (with any body).\<close>

datatype event =
    Tick rat rat timestamp
  | PostMotorSpeed json
  | PostCharging json
  | PostReset timestamp
  | GetState

fun step :: "event \<Rightarrow> system \<Rightarrow> system" where
  "step (Tick r1 r2 now) sys = update_vehicle_state r1 r2 now sys"
| "step (PostMotorSpeed data) sys = snd (set_motor_speed data sys)"
| "step (PostCharging data) sys = snd (toggle_charging data sys)"
| "step (PostReset now) sys = snd (reset_state now sys)"
| "step GetState sys = sys"

primrec run :: "event list \<Rightarrow> system \<Rightarrow> system" where
  "run [] sys = sys"
| "run (e # es) sys = run es (step e sys)"

section \<open>The motor-speed handler, statement by statement\<close>

text \<open>
  The module takes no lock: the loop runs in its own thread (\<^verbatim>\<open>threading.Thread\<close>,
  the only use of \<^verbatim>\<open>threading\<close>), the handlers in the server's, and both work on
  the same dictionary. So the statements of a handler are separate steps, between which
  the other thread may run. Here \<^verbatim>\<open>set_motor_speed\<close> is cut at its statements: the
  checks of lines 258 to 276, which only read, and then the statements that write, each
  named by its line.
\<close>

definition set_motor_speed_checks :: "json \<Rightarrow> system \<Rightarrow> response + (json \<times> int)" where
  "set_motor_speed_checks data sys =
     (case data of
        JNull \<Rightarrow> Inl (ErrorResponse 400 ''Invalid JSON payload'')
      | JObj members \<Rightarrow>
          (let speed_setting = dict_get members ''speed'' (JInt 0)
           in case find (py_eq_int speed_setting) [0, 1, 2, 3, 4] of
                None \<Rightarrow> Inl (ErrorResponse 400 ''Invalid speed setting (must be 0-4)'')
              | Some speed \<Rightarrow>
                  (let vs = vehicle_state sys
                   in if is_charging vs then
                        Inl (ErrorResponse 400 ''Cannot change speed while charging'')
                      else if battery_percentage vs \<le> 0 then
                        Inl (ErrorResponse 400 ''Battery depleted'')
                      else if parking_brake vs then
                        Inl (ErrorResponse 400 ''Cannot operate motor while parking brake is engaged'')
                      else Inr (speed_setting, speed)))
      | _ \<Rightarrow> Inl (ErrorResponse 500 ''Internal server error''))"

datatype line = L279 | L280 | L281 | L285 | L286 | L290

fun set_motor_speed_line :: "line \<Rightarrow> int \<Rightarrow> system \<Rightarrow> exn + system" where
  "set_motor_speed_line L279 speed sys =
     Inr (sys\<lparr>vehicle_state := (vehicle_state sys)\<lparr>motor_speed_setting := speed\<rparr>\<rparr>)"
| "set_motor_speed_line L280 speed sys =
     (case RPM_SETTINGS speed of
        None \<Rightarrow> Inl KeyError
      | Some rpm \<Rightarrow> Inr (sys\<lparr>vehicle_state := (vehicle_state sys)\<lparr>motor_rpm := rpm\<rparr>\<rparr>))"
| "set_motor_speed_line L281 speed sys =
     (case calculate_power_consumption speed (battery_percentage (vehicle_state sys)) of
        Inl e \<Rightarrow> Inl e
      | Inr p \<Rightarrow> Inr (sys\<lparr>vehicle_state := (vehicle_state sys)\<lparr>power_kw := p\<rparr>\<rparr>))"
| "set_motor_speed_line L285 speed sys =
     Inr (sys\<lparr>vehicle_state := (vehicle_state sys)
            \<lparr>motor_status := motor_rpm (vehicle_state sys) > HIGH_RPM_THRESHOLD\<rparr>\<rparr>)"
| "set_motor_speed_line L286 speed sys =
     (case GEAR_RATIOS speed of
        None \<Rightarrow> Inl KeyError
      | Some gear \<Rightarrow> Inr (sys\<lparr>vehicle_state := (vehicle_state sys)\<lparr>gear_ratio := gear\<rparr>\<rparr>))"
| "set_motor_speed_line L290 speed sys =
     Inr (sys\<lparr>current_state := Some (vehicle_state sys)\<rparr>)"

text \<open>
  A schedule: whole operations of other threads (\<open>Op\<close>) and statements of one
  motor-speed request that has passed its checks (\<open>Line\<close>), in the order in which the
  interpreter runs them. A statement that raises ends the request and writes nothing.
\<close>

datatype action = Op event | Line line int

fun act :: "action \<Rightarrow> system \<Rightarrow> system" where
  "act (Op e) sys = step e sys"
| "act (Line l speed) sys =
     (case set_motor_speed_line l speed sys of Inl e \<Rightarrow> sys | Inr sys' \<Rightarrow> sys')"

primrec interleave :: "action list \<Rightarrow> system \<Rightarrow> system" where
  "interleave [] sys = sys"
| "interleave (a # as) sys = interleave as (act a sys)"

text \<open>The statements of a request for speed level \<open>speed\<close>, uninterrupted.\<close>

definition set_motor_speed_lines :: "int \<Rightarrow> action list" where
  "set_motor_speed_lines speed = map (\<lambda>l. Line l speed) [L279, L280, L281, L285, L286, L290]"

text \<open>
  The request \<^verbatim>\<open>{"speed": 3}\<close> arrives after the start, passes its checks and runs
  line 279; then the loop runs one iteration; the request has not yet run line 280.
\<close>

definition interrupted_speed_change :: system where
  "interrupted_speed_change =
     interleave [Line L279 3, Op (Tick (1 / 2) (1 / 2) ''t2'')] (startup ''t0'' ''t1'')"

section \<open>Predicates of the statements\<close>

text \<open>The speed levels the tables know.\<close>

definition valid_speed :: "int \<Rightarrow> bool" where
  "valid_speed n = (n = 0 \<or> n = 1 \<or> n = 2 \<or> n = 3 \<or> n = 4)"

text \<open>
  The simulation step as the specification words it, to be compared with
  \<open>update_vehicle_state\<close>: the power is \<open>0\<close> on an empty battery and the table's
  entry times \<open>max(0.5, battery/100)\<close> otherwise; driving drains \<open>power * 0.001\<close>, not
  below 0, and warms by up to \<open>0.1\<close> towards \<open>25 + 55 * setting / 4\<close>; charging adds
  \<open>0.4\<close> below 20 percent and \<open>0.2\<close> otherwise, not above 100, and cools by \<open>0.05\<close>,
  not below 25; idling changes neither.
\<close>

definition spec_power :: "int \<Rightarrow> rat \<Rightarrow> rat" where
  "spec_power setting battery =
     (if battery \<le> 0 then 0
      else (case POWER_CONSUMPTION_RATE setting of Some base_power \<Rightarrow> base_power | None \<Rightarrow> 0)
           * max (1 / 2) (battery / 100))"

definition spec_tick_battery :: "vehicle_record \<Rightarrow> rat" where
  "spec_tick_battery vs =
     (if \<not> is_charging vs \<and> motor_speed_setting vs > 0 then
        max 0 (battery_percentage vs
               - spec_power (motor_speed_setting vs) (battery_percentage vs) * (1 / 1000))
      else if is_charging vs then
        min 100 (battery_percentage vs + (if battery_percentage vs < 20 then 4 / 10 else 2 / 10))
      else battery_percentage vs)"

definition spec_tick_temperature :: "vehicle_record \<Rightarrow> rat" where
  "spec_tick_temperature vs =
     (if \<not> is_charging vs \<and> motor_speed_setting vs > 0 then
        (let target_temp = 25 + 55 * of_int (motor_speed_setting vs) / 4
         in if battery_temperature vs < target_temp
            then min target_temp (battery_temperature vs + 1 / 10)
            else battery_temperature vs)
      else if is_charging vs then max 25 (battery_temperature vs - 5 / 100)
      else battery_temperature vs)"

text \<open>The error classes of the specification, read off the responses: every one is a
  status 400 with one of the handlers' messages.\<close>

definition invalid_json :: "response \<Rightarrow> bool" where
  "invalid_json r = (r = ErrorResponse 400 ''Invalid JSON payload'')"

definition invalid_argument :: "response \<Rightarrow> bool" where
  "invalid_argument r = (r = ErrorResponse 400 ''Invalid speed setting (must be 0-4)'')"

definition precondition_failed :: "response \<Rightarrow> bool" where
  "precondition_failed r =
     (r = ErrorResponse 400 ''Cannot change speed while charging'' \<or>
      r = ErrorResponse 400 ''Battery depleted'' \<or>
      r = ErrorResponse 400 ''Cannot operate motor while parking brake is engaged'' \<or>
      r = ErrorResponse 400 ''Cannot start charging while motor is running'' \<or>
      r = ErrorResponse 400 ''Battery is already full'')"

text \<open>The documented defaults, \<open>last_update\<close> apart.\<close>

definition documented_defaults :: "vehicle_record \<Rightarrow> bool" where
  "documented_defaults vs =
     (parking_brake vs = False \<and> check_engine vs = False \<and> motor_status vs = False \<and>
      battery_low vs = False \<and> is_charging vs = False \<and> power_kw vs = 0 \<and>
      motor_rpm vs = 0 \<and> gear_ratio vs = ''N/N'' \<and> battery_percentage vs = 100 \<and>
      battery_temperature vs = 25 \<and> motor_speed_setting vs = 0)"

text \<open>A record is fully updated when its rpm and its gear ratio are the table entries of
  its speed level, as every completed speed change leaves them.\<close>

definition fully_updated :: "vehicle_record \<Rightarrow> bool" where
  "fully_updated vs =
     (RPM_SETTINGS (motor_speed_setting vs) = Some (motor_rpm vs) \<and>
      GEAR_RATIOS (motor_speed_setting vs) = Some (gear_ratio vs))"

text \<open>The invariant of the record that every operation keeps.\<close>

definition consistent :: "vehicle_record \<Rightarrow> bool" where
  "consistent vs =
     (valid_speed (motor_speed_setting vs) \<and>
      RPM_SETTINGS (motor_speed_setting vs) = Some (motor_rpm vs) \<and>
      GEAR_RATIOS (motor_speed_setting vs) = Some (gear_ratio vs) \<and>
      motor_status vs = (motor_rpm vs > 3000) \<and>
      battery_low vs = (battery_percentage vs < 20) \<and>
      0 \<le> battery_percentage vs \<and> battery_percentage vs \<le> 100 \<and>
      25 \<le> battery_temperature vs \<and> battery_temperature vs \<le> 80 \<and>
      \<not> (motor_speed_setting vs > 0 \<and> is_charging vs))"

definition system_consistent :: "system \<Rightarrow> bool" where
  "system_consistent sys =
     (consistent (vehicle_state sys) \<and>
      (case current_state sys of None \<Rightarrow> False | Some doc \<Rightarrow> consistent doc))"

section \<open>Auxiliary facts\<close>

lemma find_speed_valid:
  "find P [0, 1, 2, 3, 4 :: int] = Some n \<Longrightarrow> valid_speed n"
  by (auto simp: valid_speed_def split: if_splits)

lemma find_JInt:
  "find (py_eq_int (JInt k)) [0, 1, 2, 3, 4] = (if valid_speed k then Some k else None)"
  by (auto simp: valid_speed_def)

lemma power_valid:
  "valid_speed n \<Longrightarrow> calculate_power_consumption n b = Inr (spec_power n b)"
  by (auto simp: valid_speed_def calculate_power_consumption_def POWER_CONSUMPTION_RATE_def
      spec_power_def Let_def)

lemma spec_power_nonneg: "valid_speed n \<Longrightarrow> 0 \<le> spec_power n b"
  by (auto simp: valid_speed_def POWER_CONSUMPTION_RATE_def spec_power_def)

lemma rpm_valid: "valid_speed n \<Longrightarrow> \<exists>rpm. RPM_SETTINGS n = Some rpm"
  by (auto simp: valid_speed_def RPM_SETTINGS_def)

lemma gear_valid: "valid_speed n \<Longrightarrow> \<exists>gear. GEAR_RATIOS n = Some gear"
  by (auto simp: valid_speed_def GEAR_RATIOS_def)

lemma dict_get_absent:
  "key \<notin> fst ` set members \<Longrightarrow> dict_get members key dflt = dflt"
proof -
  assume "key \<notin> fst ` set members"
  then have "map_of (rev members) key = None"
    by (simp add: map_of_eq_None_iff)
  then show ?thesis by (simp add: dict_get_def)
qed

lemma dict_get_single: "dict_get [(key, v)] key dflt = v"
  by (simp add: dict_get_def)

subsection \<open>The handlers, branch by branch\<close>

lemma set_motor_speed_unfold:
  assumes f: "find (py_eq_int (dict_get members ''speed'' (JInt 0))) [0, 1, 2, 3, 4] = Some speed"
  shows "set_motor_speed (JObj members) sys =
    (let vs = vehicle_state sys
     in if is_charging vs then (ErrorResponse 400 ''Cannot change speed while charging'', sys)
        else if battery_percentage vs \<le> 0 then (ErrorResponse 400 ''Battery depleted'', sys)
        else if parking_brake vs then
          (ErrorResponse 400 ''Cannot operate motor while parking brake is engaged'', sys)
        else
          (let vs' = vs\<lparr>motor_speed_setting := speed,
                        motor_rpm := the (RPM_SETTINGS speed),
                        power_kw := spec_power speed (battery_percentage vs),
                        motor_status := the (RPM_SETTINGS speed) > 3000,
                        gear_ratio := the (GEAR_RATIOS speed)\<rparr>
           in (SpeedUpdated (dict_get members ''speed'' (JInt 0)) (the (RPM_SETTINGS speed))
                 (spec_power speed (battery_percentage vs)),
               \<lparr>vehicle_state = vs', current_state = Some vs'\<rparr>)))"
proof -
  have v: "valid_speed speed" using f by (rule find_speed_valid)
  obtain rpm where rpm: "RPM_SETTINGS speed = Some rpm" using rpm_valid[OF v] by blast
  obtain gear where gear: "GEAR_RATIOS speed = Some gear" using gear_valid[OF v] by blast
  show ?thesis
    by (simp add: set_motor_speed_def f rpm gear power_valid[OF v] Let_def HIGH_RPM_THRESHOLD_def
        del: find.simps)
qed

lemma set_motor_speed_invalid:
  assumes f: "find (py_eq_int (dict_get members ''speed'' (JInt 0))) [0, 1, 2, 3, 4] = None"
  shows "set_motor_speed (JObj members) sys =
           (ErrorResponse 400 ''Invalid speed setting (must be 0-4)'', sys)"
  by (simp add: set_motor_speed_def f Let_def del: find.simps)

lemma toggle_charging_unfold:
  "toggle_charging (JObj members) sys =
    (let charging = dict_get members ''charging'' (JBool False);
         vs = vehicle_state sys
     in if truthy charging \<and> motor_speed_setting vs > 0 then
          (ErrorResponse 400 ''Cannot start charging while motor is running'', sys)
        else if truthy charging \<and> battery_percentage vs \<ge> 100 then
          (ErrorResponse 400 ''Battery is already full'', sys)
        else if truthy charging then
          (let vs' = vs\<lparr>is_charging := True, motor_speed_setting := 0, motor_rpm := 0,
                        power_kw := - 5\<rparr>
           in (ChargingUpdated charging (battery_percentage vs),
               \<lparr>vehicle_state = vs', current_state = Some vs'\<rparr>))
        else
          (let vs' = vs\<lparr>is_charging := False, power_kw := 0\<rparr>
           in (ChargingUpdated charging (battery_percentage vs),
               \<lparr>vehicle_state = vs', current_state = Some vs'\<rparr>)))"
  by (simp add: toggle_charging_def Let_def)

lemma tick_unfold:
  assumes "valid_speed (motor_speed_setting (vehicle_state sys))"
  shows "update_vehicle_state r1 r2 now sys =
    (let vs = vehicle_state sys;
         vs' = vs\<lparr>battery_percentage := spec_tick_battery vs,
                  battery_temperature := spec_tick_temperature vs,
                  battery_low := spec_tick_battery vs < 20,
                  motor_status := motor_rpm vs > 3000,
                  parking_brake := (if r1 < 1 / 1000 then \<not> parking_brake vs else parking_brake vs),
                  check_engine := (if r2 < 5 / 10000 then \<not> check_engine vs else check_engine vs),
                  last_update := now\<rparr>
     in \<lparr>vehicle_state = vs', current_state = Some vs'\<rparr>)"
proof -
  let ?vs = "vehicle_state sys"
  note defs = update_vehicle_state_def spec_tick_battery_def spec_tick_temperature_def Let_def
    MIN_TEMPERATURE_def MAX_TEMPERATURE_def MIN_BATTERY_THRESHOLD_def HIGH_RPM_THRESHOLD_def
  consider (drive) "\<not> is_charging ?vs" "motor_speed_setting ?vs > 0"
    | (charge) "is_charging ?vs"
    | (idle) "\<not> is_charging ?vs" "\<not> motor_speed_setting ?vs > 0"
    by blast
  then show ?thesis
  proof cases
    case drive
    then show ?thesis using power_valid[OF assms] by (simp add: defs)
  next
    case charge
    then show ?thesis by (simp add: defs)
  next
    case idle
    then show ?thesis by (simp add: defs)
  qed
qed

subsection \<open>The invariant\<close>

lemma spec_tick_battery_bounds:
  assumes "valid_speed (motor_speed_setting vs)"
    and "0 \<le> battery_percentage vs" and "battery_percentage vs \<le> 100"
  shows "0 \<le> spec_tick_battery vs \<and> spec_tick_battery vs \<le> 100"
proof -
  have "0 \<le> spec_power (motor_speed_setting vs) (battery_percentage vs) * (1 / 1000)"
    using spec_power_nonneg[OF assms(1)] by simp
  then show ?thesis using assms(2,3)
    by (auto simp: spec_tick_battery_def)
qed

lemma spec_tick_temperature_bounds:
  assumes "valid_speed (motor_speed_setting vs)"
    and "25 \<le> battery_temperature vs" and "battery_temperature vs \<le> 80"
  shows "25 \<le> spec_tick_temperature vs \<and> spec_tick_temperature vs \<le> 80"
proof -
  have "25 + 55 * (of_int (motor_speed_setting vs) :: rat) / 4 \<le> 80"
    using assms(1) by (auto simp: valid_speed_def)
  then show ?thesis using assms(2,3)
    by (auto simp: spec_tick_temperature_def Let_def)
qed

lemma consistent_initial: "consistent (initial_state now)"
  by (simp add: consistent_def initial_state_def RPM_SETTINGS_def GEAR_RATIOS_def
      valid_speed_def)

lemma consistent_tick:
  assumes "consistent vs"
  shows "consistent (vs\<lparr>battery_percentage := spec_tick_battery vs,
                  battery_temperature := spec_tick_temperature vs,
                  battery_low := spec_tick_battery vs < 20,
                  motor_status := motor_rpm vs > 3000,
                  parking_brake := pb,
                  check_engine := ce,
                  last_update := now\<rparr>)"
proof -
  have v: "valid_speed (motor_speed_setting vs)" using assms by (simp add: consistent_def)
  have b: "0 \<le> spec_tick_battery vs \<and> spec_tick_battery vs \<le> 100"
    using assms by (intro spec_tick_battery_bounds) (simp_all add: consistent_def)
  have t: "25 \<le> spec_tick_temperature vs \<and> spec_tick_temperature vs \<le> 80"
    using assms by (intro spec_tick_temperature_bounds) (simp_all add: consistent_def)
  show ?thesis using assms b t by (simp add: consistent_def)
qed

lemma system_consistent_tick:
  assumes "system_consistent sys"
  shows "system_consistent (update_vehicle_state r1 r2 now sys)"
proof -
  have c: "consistent (vehicle_state sys)" using assms by (simp add: system_consistent_def)
  then have v: "valid_speed (motor_speed_setting (vehicle_state sys))"
    by (simp add: consistent_def)
  show ?thesis
    by (simp add: tick_unfold[OF v] system_consistent_def Let_def consistent_tick[OF c])
qed

lemma consistent_speed:
  assumes "consistent vs" and "valid_speed speed" and "\<not> is_charging vs"
  shows "consistent (vs\<lparr>motor_speed_setting := speed,
                        motor_rpm := the (RPM_SETTINGS speed),
                        power_kw := p,
                        motor_status := the (RPM_SETTINGS speed) > 3000,
                        gear_ratio := the (GEAR_RATIOS speed)\<rparr>)"
proof -
  obtain rpm where rpm: "RPM_SETTINGS speed = Some rpm" using rpm_valid[OF assms(2)] by blast
  obtain gear where gear: "GEAR_RATIOS speed = Some gear" using gear_valid[OF assms(2)] by blast
  show ?thesis using assms rpm gear by (simp add: consistent_def)
qed

lemma system_consistent_set_motor_speed:
  assumes "system_consistent sys"
  shows "system_consistent (snd (set_motor_speed data sys))"
proof (cases data)
  case (JObj members)
  let ?v = "dict_get members ''speed'' (JInt 0)"
  show ?thesis
  proof (cases "find (py_eq_int ?v) [0, 1, 2, 3, 4]")
    case None
    then show ?thesis using assms JObj by (simp add: set_motor_speed_invalid del: find.simps)
  next
    case (Some speed)
    have v: "valid_speed speed" using Some by (rule find_speed_valid)
    have c: "consistent (vehicle_state sys)" using assms by (simp add: system_consistent_def)
    show ?thesis using assms JObj
      by (simp add: set_motor_speed_unfold[OF Some] Let_def system_consistent_def
          consistent_speed[OF c v])
  qed
qed (use assms in \<open>simp_all add: set_motor_speed_def\<close>)

lemma consistent_charge_on:
  assumes "consistent vs" and "\<not> motor_speed_setting vs > 0"
  shows "consistent (vs\<lparr>is_charging := True, motor_speed_setting := 0, motor_rpm := 0,
                        power_kw := p\<rparr>)"
  using assms by (auto simp: consistent_def valid_speed_def RPM_SETTINGS_def)

lemma consistent_charge_off:
  assumes "consistent vs"
  shows "consistent (vs\<lparr>is_charging := False, power_kw := p\<rparr>)"
  using assms by (simp add: consistent_def)

lemma system_consistent_toggle_charging:
  assumes "system_consistent sys"
  shows "system_consistent (snd (toggle_charging data sys))"
proof (cases data)
  case (JObj members)
  have c: "consistent (vehicle_state sys)" using assms by (simp add: system_consistent_def)
  show ?thesis using assms JObj
    by (simp add: toggle_charging_unfold Let_def system_consistent_def
        consistent_charge_on[OF c] consistent_charge_off[OF c])
qed (use assms in \<open>simp_all add: toggle_charging_def\<close>)

lemma system_consistent_reset: "system_consistent (snd (reset_state now sys))"
  by (simp add: reset_state_def Let_def system_consistent_def consistent_initial)

lemma system_consistent_startup: "system_consistent (startup t_doc t_mem)"
  by (simp add: startup_def create_current_state_document_def system_consistent_def
      consistent_initial)

lemma system_consistent_step:
  "system_consistent sys \<Longrightarrow> system_consistent (step e sys)"
  by (cases e)
    (simp_all add: system_consistent_tick system_consistent_set_motor_speed
      system_consistent_toggle_charging system_consistent_reset)

lemma system_consistent_run:
  "system_consistent sys \<Longrightarrow> system_consistent (run es sys)"
  by (induction es arbitrary: sys) (simp_all add: system_consistent_step)

lemma reachable_consistent: "system_consistent (run es (startup t_doc t_mem))"
  by (rule system_consistent_run) (rule system_consistent_startup)

subsection \<open>Unfolding at concrete inputs\<close>

lemmas eval_defs =
  startup_def create_current_state_document_def initial_state_def set_motor_speed_def
  toggle_charging_def update_vehicle_state_def reset_state_def calculate_power_consumption_def
  POWER_CONSUMPTION_RATE_def RPM_SETTINGS_def GEAR_RATIOS_def dict_get_def Let_def
  MIN_TEMPERATURE_def MAX_TEMPERATURE_def MIN_BATTERY_THRESHOLD_def HIGH_RPM_THRESHOLD_def
  SetMotorSpeed_def ToggleCharging_def Reset_def get_vehicle_state_def

section \<open>Invariants of the reachable states\<close>

text \<open>
  C1. In every state reached from the start by any sequence of loop iterations and
  requests (with any bodies, so in particular by the commands SetMotorSpeed, ToggleCharging
  and Reset), a positive \<open>motor_speed_setting\<close> and \<open>is_charging\<close> never hold together,
  in the dictionary as in the stored document.
\<close>

theorem charging_excludes_motor:
  "(let sys = run es (startup t_doc t_mem)
    in \<not> (motor_speed_setting (vehicle_state sys) > 0 \<and> is_charging (vehicle_state sys)) \<and>
       (\<exists>doc. current_state sys = Some doc \<and>
              \<not> (motor_speed_setting doc > 0 \<and> is_charging doc)))"
proof -
  have "system_consistent (run es (startup t_doc t_mem))"
    by (rule reachable_consistent)
  then show ?thesis
    by (auto simp: system_consistent_def consistent_def Let_def split: option.splits)
qed

theorem charging_excludes_motor_witness:
  "(let sys = run [PostMotorSpeed (JObj [(''speed'', JInt 3)]), Tick (1 / 2) (1 / 2) ''t2'',
                   PostMotorSpeed (JObj [(''speed'', JInt 0)]),
                   PostCharging (JObj [(''charging'', JBool True)])] (startup ''t0'' ''t1'')
    in is_charging (vehicle_state sys) \<and> \<not> motor_speed_setting (vehicle_state sys) > 0 \<and>
       current_state sys = Some (vehicle_state sys))"
  using charging_excludes_motor
    [of "[PostMotorSpeed (JObj [(''speed'', JInt 3)]), Tick (1 / 2) (1 / 2) ''t2'',
          PostMotorSpeed (JObj [(''speed'', JInt 0)]),
          PostCharging (JObj [(''charging'', JBool True)])]" "''t0''" "''t1''"]
  by (simp add: eval_defs)

text \<open>
  C2. In every reachable state, after any number of loop iterations and any sequence of
  requests, \<open>battery_percentage\<close> lies in \<open>[0, 100]\<close> and \<open>battery_temperature\<close> in
  \<open>[MIN_TEMPERATURE, MAX_TEMPERATURE] = [25, 80]\<close>, in the dictionary as in the stored
  document.
\<close>

theorem battery_and_temperature_bounds:
  "(let sys = run es (startup t_doc t_mem); vs = vehicle_state sys
    in 0 \<le> battery_percentage vs \<and> battery_percentage vs \<le> 100 \<and>
       MIN_TEMPERATURE \<le> battery_temperature vs \<and> battery_temperature vs \<le> MAX_TEMPERATURE \<and>
       MIN_TEMPERATURE = 25 \<and> MAX_TEMPERATURE = 80 \<and>
       (\<exists>doc. current_state sys = Some doc \<and>
              0 \<le> battery_percentage doc \<and> battery_percentage doc \<le> 100 \<and>
              MIN_TEMPERATURE \<le> battery_temperature doc \<and>
              battery_temperature doc \<le> MAX_TEMPERATURE))"
proof -
  have "system_consistent (run es (startup t_doc t_mem))"
    by (rule reachable_consistent)
  then show ?thesis
    by (auto simp: system_consistent_def consistent_def Let_def MIN_TEMPERATURE_def
        MAX_TEMPERATURE_def split: option.splits)
qed

theorem battery_and_temperature_bounds_witness:
  "(let sys = run [PostMotorSpeed (JObj [(''speed'', JInt 4)]), Tick (1 / 2) (1 / 2) ''t2'',
                   Tick (1 / 2) (1 / 2) ''t3''] (startup ''t0'' ''t1'')
    in battery_percentage (vehicle_state sys) = 9801 / 100 \<and>
       battery_temperature (vehicle_state sys) = 126 / 5 \<and>
       0 \<le> battery_percentage (vehicle_state sys) \<and> battery_percentage (vehicle_state sys) \<le> 100 \<and>
       MIN_TEMPERATURE \<le> battery_temperature (vehicle_state sys) \<and>
       battery_temperature (vehicle_state sys) \<le> MAX_TEMPERATURE)"
  using battery_and_temperature_bounds
    [of "[PostMotorSpeed (JObj [(''speed'', JInt 4)]), Tick (1 / 2) (1 / 2) ''t2'',
          Tick (1 / 2) (1 / 2) ''t3'']" "''t0''" "''t1''"]
  by (simp add: eval_defs)

text \<open>
  C7. In every reachable state the derived flags agree with their source fields:
  \<open>motor_status = (motor_rpm > 3000)\<close> and \<open>battery_low = (battery_percentage < 20)\<close>,
  in the dictionary the handlers answer from and in the document a GetState serves.
\<close>

theorem derived_flags_consistent:
  "(let sys = run es (startup t_doc t_mem); vs = vehicle_state sys
    in motor_status vs = (motor_rpm vs > 3000) \<and>
       battery_low vs = (battery_percentage vs < 20) \<and>
       (\<exists>doc. get_vehicle_state sys = StateRecord doc \<and>
              motor_status doc = (motor_rpm doc > 3000) \<and>
              battery_low doc = (battery_percentage doc < 20)))"
proof -
  have "system_consistent (run es (startup t_doc t_mem))"
    by (rule reachable_consistent)
  then show ?thesis
    by (auto simp: system_consistent_def consistent_def Let_def get_vehicle_state_def
        split: option.splits)
qed

theorem derived_flags_consistent_witness:
  "(let sys = run [PostMotorSpeed (JObj [(''speed'', JInt 3)]), GetState,
                   Tick (1 / 2) (1 / 2) ''t2''] (startup ''t0'' ''t1'')
    in motor_status (vehicle_state sys) \<and> motor_rpm (vehicle_state sys) = 4500 \<and>
       \<not> battery_low (vehicle_state sys) \<and>
       get_vehicle_state sys = StateRecord (vehicle_state sys))"
  using derived_flags_consistent
    [of "[PostMotorSpeed (JObj [(''speed'', JInt 3)]), GetState,
          Tick (1 / 2) (1 / 2) ''t2'']" "''t0''" "''t1''"]
  by (simp add: eval_defs)

section \<open>The simulation step\<close>

text \<open>
  C3. On a state whose speed level is one of 0..4, one iteration of the loop leaves the
  battery and the temperature exactly where the specification's step puts them
  (\<open>spec_tick_battery\<close>, \<open>spec_tick_temperature\<close>), and the power it uses is
  \<open>calculate_power_consumption\<close>, which is \<open>0\<close> on an empty battery and the table's entry
  times \<open>max(0.5, battery/100)\<close> otherwise. While driving the temperature never falls,
  rises by at most \<open>0.1\<close>, and never passes the target \<open>25 + 55 * setting / 4\<close> from
  below.
\<close>

theorem tick_battery_and_temperature:
  assumes "valid_speed (motor_speed_setting (vehicle_state sys))"
  shows "(let vs = vehicle_state sys;
              vs' = vehicle_state (update_vehicle_state r1 r2 now sys)
          in battery_percentage vs' = spec_tick_battery vs \<and>
             battery_temperature vs' = spec_tick_temperature vs \<and>
             calculate_power_consumption (motor_speed_setting vs) (battery_percentage vs) =
               Inr (spec_power (motor_speed_setting vs) (battery_percentage vs)) \<and>
             (if \<not> is_charging vs \<and> motor_speed_setting vs > 0
              then battery_temperature vs \<le> battery_temperature vs' \<and>
                   battery_temperature vs' \<le> battery_temperature vs + 1 / 10 \<and>
                   battery_temperature vs' \<le>
                     max (battery_temperature vs) (25 + 55 * of_int (motor_speed_setting vs) / 4)
              else True))"
proof -
  let ?vs = "vehicle_state sys"
  have d: "\<not> is_charging ?vs \<and> motor_speed_setting ?vs > 0 \<Longrightarrow>
           battery_temperature ?vs \<le> spec_tick_temperature ?vs \<and>
           spec_tick_temperature ?vs \<le> battery_temperature ?vs + 1 / 10 \<and>
           spec_tick_temperature ?vs \<le>
             max (battery_temperature ?vs) (25 + 55 * of_int (motor_speed_setting ?vs) / 4)"
    by (simp add: spec_tick_temperature_def Let_def)
  show ?thesis
    using d by (simp add: tick_unfold[OF assms] power_valid[OF assms] Let_def)
qed

theorem tick_battery_and_temperature_witness:
  "(let sys = snd (SetMotorSpeed 3 (startup ''t0'' ''t1''));
        vs' = vehicle_state (update_vehicle_state (1 / 2) (1 / 2) ''t2'' sys)
    in valid_speed (motor_speed_setting (vehicle_state sys)) \<and>
       battery_percentage vs' = 497 / 5 \<and> battery_temperature vs' = 251 / 10)"
  using tick_battery_and_temperature
    [of "snd (SetMotorSpeed 3 (startup ''t0'' ''t1''))" "1 / 2" "1 / 2" "''t2''"]
  by (simp add: eval_defs valid_speed_def spec_tick_battery_def spec_tick_temperature_def
      spec_power_def)

section \<open>The commands\<close>

text \<open>
  C4. SetMotorSpeed(speed) answers 400 with the invalid-speed message exactly when
  \<open>speed\<close> is not one of 0..4; for a valid speed it answers 400 with a precondition
  message exactly when the vehicle is charging, the battery is at or below 0, or the
  parking brake is engaged; a rejected command leaves the state as it was. Otherwise it
  sets \<open>motor_speed_setting = speed\<close>, \<open>motor_rpm = RPM_SETTINGS[speed]\<close>,
  \<open>power = calculate_power_consumption(speed, battery_percentage)\<close>,
  \<open>motor_status = (motor_rpm > 3000)\<close>, \<open>gear_ratio = GEAR_RATIOS[speed]\<close>, stores the
  record and returns speed, rpm and power. From the start, SetMotorSpeed(3) returns speed 3,
  rpm 4500 and power 600.
\<close>

theorem set_motor_speed_contract:
  "(let vs = vehicle_state sys;
        r = fst (SetMotorSpeed speed sys);
        sys' = snd (SetMotorSpeed speed sys);
        blocked = (is_charging vs \<or> battery_percentage vs \<le> 0 \<or> parking_brake vs)
    in (invalid_argument r \<longleftrightarrow> speed \<notin> {0, 1, 2, 3, 4}) \<and>
       (speed \<in> {0, 1, 2, 3, 4} \<longrightarrow> (precondition_failed r \<longleftrightarrow> blocked)) \<and>
       (speed \<notin> {0, 1, 2, 3, 4} \<or> blocked \<longrightarrow> sys' = sys) \<and>
       (speed \<in> {0, 1, 2, 3, 4} \<and> \<not> blocked \<longrightarrow>
          (\<exists>rpm p gear.
             RPM_SETTINGS speed = Some rpm \<and>
             calculate_power_consumption speed (battery_percentage vs) = Inr p \<and>
             GEAR_RATIOS speed = Some gear \<and>
             r = SpeedUpdated (JInt speed) rpm p \<and>
             vehicle_state sys' =
               vs\<lparr>motor_speed_setting := speed, motor_rpm := rpm, power_kw := p,
                   motor_status := rpm > 3000, gear_ratio := gear\<rparr> \<and>
             current_state sys' = Some (vehicle_state sys')))) \<and>
   fst (SetMotorSpeed 3 (startup t_doc t_mem)) = SpeedUpdated (JInt 3) 4500 600"
proof -
  have scenario: "fst (SetMotorSpeed 3 (startup t_doc t_mem)) = SpeedUpdated (JInt 3) 4500 600"
    by (simp add: eval_defs)
  have general: ?thesis if "\<not> valid_speed speed"
  proof -
    have f: "find (py_eq_int (dict_get [(''speed'', JInt speed)] ''speed'' (JInt 0))) [0, 1, 2, 3, 4] = None"
      using that by (simp add: dict_get_single find_JInt del: find.simps)
    show ?thesis using that scenario
      by (simp add: SetMotorSpeed_def set_motor_speed_invalid[OF f] invalid_argument_def
          valid_speed_def Let_def)
  qed
  have valid: ?thesis if v: "valid_speed speed"
  proof -
    have f: "find (py_eq_int (dict_get [(''speed'', JInt speed)] ''speed'' (JInt 0))) [0, 1, 2, 3, 4] = Some speed"
      using v by (simp add: dict_get_single find_JInt del: find.simps)
    obtain rpm where rpm: "RPM_SETTINGS speed = Some rpm" using rpm_valid[OF v] by blast
    obtain gear where gear: "GEAR_RATIOS speed = Some gear" using gear_valid[OF v] by blast
    have s: "speed \<in> {0, 1, 2, 3, 4}" using v by (simp add: valid_speed_def)
    show ?thesis using scenario s
      by (simp add: SetMotorSpeed_def set_motor_speed_unfold[OF f] rpm gear power_valid[OF v]
          invalid_argument_def precondition_failed_def dict_get_single Let_def)
  qed
  show ?thesis using general valid by blast
qed

theorem set_motor_speed_contract_witness:
  "(3::int) \<in> {0, 1, 2, 3, 4} \<and>
   \<not> (is_charging (vehicle_state (startup ''t0'' ''t1'')) \<or>
      battery_percentage (vehicle_state (startup ''t0'' ''t1'')) \<le> 0 \<or>
      parking_brake (vehicle_state (startup ''t0'' ''t1''))) \<and>
   fst (SetMotorSpeed 3 (startup ''t0'' ''t1'')) = SpeedUpdated (JInt 3) 4500 600 \<and>
   motor_status (vehicle_state (snd (SetMotorSpeed 3 (startup ''t0'' ''t1'')))) \<and>
   gear_ratio (vehicle_state (snd (SetMotorSpeed 3 (startup ''t0'' ''t1'')))) = ''8.1:1'' \<and>
   invalid_argument (fst (SetMotorSpeed 5 (startup ''t0'' ''t1'')))"
  using set_motor_speed_contract [of "startup ''t0'' ''t1''" 3 "''t0''" "''t1''"]
  by (simp add: eval_defs invalid_argument_def)

text \<open>
  C5. ToggleCharging(charging) answers 400 with a precondition message exactly when
  \<open>charging\<close> is true and the motor speed is positive or the battery is at or above 100,
  and then leaves the state as it was. Otherwise it returns the flag and the battery
  percentage and stores the record; switching on sets \<open>is_charging = true\<close>,
  \<open>motor_speed_setting = 0\<close>, \<open>motor_rpm = 0\<close>, \<open>power = -5\<close>; switching off sets
  \<open>is_charging = false\<close>, \<open>power = 0\<close>.
\<close>

theorem toggle_charging_contract:
  "(let vs = vehicle_state sys;
        r = fst (ToggleCharging charging sys);
        sys' = snd (ToggleCharging charging sys);
        blocked = (charging \<and> (motor_speed_setting vs > 0 \<or> battery_percentage vs \<ge> 100))
    in (precondition_failed r \<longleftrightarrow> blocked) \<and>
       (blocked \<longrightarrow> sys' = sys) \<and>
       (\<not> blocked \<longrightarrow>
          r = ChargingUpdated (JBool charging) (battery_percentage vs) \<and>
          current_state sys' = Some (vehicle_state sys')) \<and>
       (\<not> blocked \<and> charging \<longrightarrow>
          vehicle_state sys' =
            vs\<lparr>is_charging := True, motor_speed_setting := 0, motor_rpm := 0,
                power_kw := - 5\<rparr>) \<and>
       (\<not> charging \<longrightarrow>
          vehicle_state sys' = vs\<lparr>is_charging := False, power_kw := 0\<rparr>))"
  by (auto simp: ToggleCharging_def toggle_charging_unfold dict_get_single Let_def
      precondition_failed_def)

theorem toggle_charging_contract_witness:
  "(let sys = run [PostMotorSpeed (JObj [(''speed'', JInt 3)]), Tick (1 / 2) (1 / 2) ''t2'',
                   PostMotorSpeed (JObj [(''speed'', JInt 0)])] (startup ''t0'' ''t1'')
    in \<not> (True \<and> (motor_speed_setting (vehicle_state sys) > 0 \<or>
                  battery_percentage (vehicle_state sys) \<ge> 100)) \<and>
       fst (ToggleCharging True sys) = ChargingUpdated (JBool True) (497 / 5) \<and>
       power_kw (vehicle_state (snd (ToggleCharging True sys))) = - 5 \<and>
       is_charging (vehicle_state (snd (ToggleCharging True sys))) \<and>
       power_kw (vehicle_state (snd (ToggleCharging False (snd (ToggleCharging True sys))))) = 0 \<and>
       precondition_failed (fst (ToggleCharging True (startup ''t0'' ''t1''))))"
  using toggle_charging_contract
    [of "run [PostMotorSpeed (JObj [(''speed'', JInt 3)]), Tick (1 / 2) (1 / 2) ''t2'',
              PostMotorSpeed (JObj [(''speed'', JInt 0)])] (startup ''t0'' ''t1'')" True]
  by (simp add: eval_defs precondition_failed_def)

text \<open>
  C6. Reset() succeeds from every state and puts every documented field at its default
  (flags off, power 0, rpm 0, gear \<open>N/N\<close>, battery 100, temperature 25, speed 0);
  \<open>last_update\<close> is the clock of the call. A second Reset() succeeds again and yields
  the same documented defaults: the same state when the clock reads the same, and
  otherwise the first state with \<open>last_update\<close> moved to the second clock.
\<close>

theorem reset_restores_defaults:
  "fst (Reset now sys) = StateReset \<and>
   documented_defaults (vehicle_state (snd (Reset now sys))) \<and>
   last_update (vehicle_state (snd (Reset now sys))) = now \<and>
   current_state (snd (Reset now sys)) = Some (vehicle_state (snd (Reset now sys))) \<and>
   Reset now (snd (Reset now sys)) = Reset now sys \<and>
   fst (Reset later (snd (Reset now sys))) = StateReset \<and>
   documented_defaults (vehicle_state (snd (Reset later (snd (Reset now sys))))) \<and>
   vehicle_state (snd (Reset later (snd (Reset now sys)))) =
     (vehicle_state (snd (Reset now sys)))\<lparr>last_update := later\<rparr>"
  by (simp add: Reset_def reset_state_def initial_state_def documented_defaults_def Let_def)

theorem reset_restores_defaults_witness:
  "(let sys = run [PostMotorSpeed (JObj [(''speed'', JInt 3)]), Tick (1 / 2) (1 / 2) ''t2'']
                (startup ''t0'' ''t1'')
    in \<not> documented_defaults (vehicle_state sys) \<and>
       documented_defaults (vehicle_state (snd (Reset ''t3'' sys))) \<and>
       vehicle_state (snd (Reset ''t4'' (snd (Reset ''t3'' sys)))) = initial_state ''t4'')"
  using reset_restores_defaults
    [of "''t3''" "run [PostMotorSpeed (JObj [(''speed'', JInt 3)]), Tick (1 / 2) (1 / 2) ''t2'']
                (startup ''t0'' ''t1'')" "''t4''"]
  by (simp add: eval_defs documented_defaults_def)

text \<open>
  C8. \<open>last_update\<close> is to carry the time of the latest mutation. The loop and Reset
  assign it; the handlers of the motor speed and of charging read no clock and leave the
  field alone. Started at \<open>T0\<close>, a successful SetMotorSpeed(3) changes the speed and stores the record
  with \<open>last_update\<close> still \<open>T0\<close>; after an iteration at \<open>T1\<close>, a successful
  ToggleCharging(true) leaves it at \<open>T1\<close>; a Reset at \<open>T2\<close> sets it to \<open>T2\<close>.
\<close>

theorem commands_keep_last_update:
  "(let sys = startup ''T0'' ''T0'';
        sys1 = snd (SetMotorSpeed 3 sys);
        sys2 = update_vehicle_state (1 / 2) (1 / 2) ''T1'' sys1;
        sys3 = snd (SetMotorSpeed 0 sys2);
        sys4 = snd (ToggleCharging True sys3)
    in fst (SetMotorSpeed 3 sys) = SpeedUpdated (JInt 3) 4500 600 \<and>
       motor_speed_setting (vehicle_state sys1) = 3 \<and>
       last_update (vehicle_state sys1) = ''T0'' \<and>
       current_state sys1 = Some (vehicle_state sys1) \<and>
       last_update (vehicle_state sys2) = ''T1'' \<and>
       fst (ToggleCharging True sys3) = ChargingUpdated (JBool True) (497 / 5) \<and>
       is_charging (vehicle_state sys4) \<and>
       last_update (vehicle_state sys4) = ''T1'' \<and>
       last_update (vehicle_state (snd (Reset ''T2'' sys4))) = ''T2'')"
  by (simp add: eval_defs)

section \<open>Request bodies without the expected member\<close>

text \<open>
  C10. A JSON object without the member \<open>speed\<close> is handled by the motor-speed route
  exactly as SetMotorSpeed(0), and one without \<open>charging\<close> by the charging route exactly
  as ToggleCharging(false); neither is rejected as invalid. The answer 400
  \<open>Invalid JSON payload\<close> is given for the body \<^verbatim>\<open>None\<close> only, never for an object.
\<close>

theorem missing_key_defaults:
  "(''speed'' \<notin> fst ` set members \<longrightarrow>
      set_motor_speed (JObj members) sys = SetMotorSpeed 0 sys \<and>
      \<not> invalid_json (fst (set_motor_speed (JObj members) sys)) \<and>
      \<not> invalid_argument (fst (set_motor_speed (JObj members) sys))) \<and>
   (''charging'' \<notin> fst ` set members \<longrightarrow>
      toggle_charging (JObj members) sys = ToggleCharging False sys \<and>
      \<not> invalid_json (fst (toggle_charging (JObj members) sys)) \<and>
      vehicle_state (snd (toggle_charging (JObj members) sys)) =
        (vehicle_state sys)\<lparr>is_charging := False, power_kw := 0\<rparr>) \<and>
   (invalid_json (fst (set_motor_speed data sys)) \<longleftrightarrow> data = JNull) \<and>
   (invalid_json (fst (toggle_charging data sys)) \<longleftrightarrow> data = JNull)"
proof -
  have f0: "find (py_eq_int (JInt 0)) [0, 1, 2, 3, 4] = Some 0"
    by simp
  have speed: "set_motor_speed (JObj members) sys = SetMotorSpeed 0 sys \<and>
      \<not> invalid_json (fst (set_motor_speed (JObj members) sys)) \<and>
      \<not> invalid_argument (fst (set_motor_speed (JObj members) sys))"
    if "''speed'' \<notin> fst ` set members"
  proof -
    have g: "dict_get members ''speed'' (JInt 0) = JInt 0"
      using that by (rule dict_get_absent)
    have a: "find (py_eq_int (dict_get members ''speed'' (JInt 0))) [0, 1, 2, 3, 4] = Some 0"
      using f0 by (simp only: g)
    have b: "find (py_eq_int (dict_get [(''speed'', JInt 0)] ''speed'' (JInt 0))) [0, 1, 2, 3, 4] = Some 0"
      using f0 by (simp only: dict_get_single)
    show ?thesis
      by (simp add: SetMotorSpeed_def set_motor_speed_unfold[OF a] set_motor_speed_unfold[OF b]
          g dict_get_single Let_def invalid_json_def invalid_argument_def)
  qed
  have charging: "toggle_charging (JObj members) sys = ToggleCharging False sys \<and>
      \<not> invalid_json (fst (toggle_charging (JObj members) sys)) \<and>
      vehicle_state (snd (toggle_charging (JObj members) sys)) =
        (vehicle_state sys)\<lparr>is_charging := False, power_kw := 0\<rparr>"
    if "''charging'' \<notin> fst ` set members"
  proof -
    have g: "dict_get members ''charging'' (JBool False) = JBool False"
      using that by (rule dict_get_absent)
    show ?thesis
      by (simp add: ToggleCharging_def toggle_charging_unfold g dict_get_single Let_def
          invalid_json_def)
  qed
  have sj: "invalid_json (fst (set_motor_speed data sys)) \<longleftrightarrow> data = JNull"
  proof (cases data)
    case (JObj ms)
    show ?thesis
    proof (cases "find (py_eq_int (dict_get ms ''speed'' (JInt 0))) [0, 1, 2, 3, 4]")
      case None
      then show ?thesis using JObj
        by (simp add: set_motor_speed_invalid invalid_json_def del: find.simps)
    next
      case (Some n)
      show ?thesis using JObj
        by (simp add: set_motor_speed_unfold[OF Some] invalid_json_def Let_def)
    qed
  qed (simp_all add: set_motor_speed_def invalid_json_def)
  have tj: "invalid_json (fst (toggle_charging data sys)) \<longleftrightarrow> data = JNull"
    by (cases data) (simp_all add: toggle_charging_def invalid_json_def Let_def)
  show ?thesis using speed charging sj tj by blast
qed

theorem missing_key_defaults_witness:
  "''speed'' \<notin> fst ` set [(''velocity'', JInt 3)] \<and>
   ''charging'' \<notin> fst ` set [(''velocity'', JInt 3)] \<and>
   fst (set_motor_speed (JObj [(''velocity'', JInt 3)]) (startup ''t0'' ''t1'')) =
     SpeedUpdated (JInt 0) 0 0 \<and>
   fst (toggle_charging (JObj [(''velocity'', JInt 3)]) (startup ''t0'' ''t1'')) =
     ChargingUpdated (JBool False) 100 \<and>
   invalid_json (fst (set_motor_speed JNull (startup ''t0'' ''t1''))) \<and>
   fst (set_motor_speed (JArr []) (startup ''t0'' ''t1'')) =
     ErrorResponse 500 ''Internal server error''"
  using missing_key_defaults
    [of "[(''velocity'', JInt 3)]" "startup ''t0'' ''t1''" JNull]
  by (simp add: eval_defs invalid_json_def)

section \<open>Operations that interleave\<close>

lemma set_motor_speed_checks_rejects:
  assumes "set_motor_speed_checks data sys = Inl r"
  shows "set_motor_speed data sys = (r, sys)"
proof (cases data)
  case (JObj members)
  show ?thesis
  proof (cases "find (py_eq_int (dict_get members ''speed'' (JInt 0))) [0, 1, 2, 3, 4]")
    case None
    then show ?thesis using assms JObj
      by (simp add: set_motor_speed_invalid set_motor_speed_checks_def Let_def del: find.simps)
  next
    case (Some speed)
    then show ?thesis using assms JObj
      by (simp add: set_motor_speed_unfold[OF Some] set_motor_speed_checks_def Let_def
          split: if_splits del: find.simps)
  qed
qed (use assms in \<open>simp_all add: set_motor_speed_def set_motor_speed_checks_def\<close>)

lemma set_motor_speed_checks_passes:
  assumes "set_motor_speed_checks data sys = Inr (v, speed)"
  shows "interleave (set_motor_speed_lines speed) sys = snd (set_motor_speed data sys)"
proof (cases data)
  case (JObj members)
  show ?thesis
  proof (cases "find (py_eq_int (dict_get members ''speed'' (JInt 0))) [0, 1, 2, 3, 4]")
    case None
    then show ?thesis using assms JObj
      by (simp add: set_motor_speed_checks_def Let_def del: find.simps)
  next
    case (Some n)
    have n: "n = speed" and pass: "\<not> is_charging (vehicle_state sys)"
      "\<not> battery_percentage (vehicle_state sys) \<le> 0" "\<not> parking_brake (vehicle_state sys)"
      using assms JObj Some
      by (simp_all add: set_motor_speed_checks_def Let_def split: if_splits del: find.simps)
    have v: "valid_speed speed" using Some n find_speed_valid by blast
    obtain rpm where rpm: "RPM_SETTINGS speed = Some rpm" using rpm_valid[OF v] by blast
    obtain gear where gear: "GEAR_RATIOS speed = Some gear" using gear_valid[OF v] by blast
    have whole: "snd (set_motor_speed data sys) =
        \<lparr>vehicle_state = (vehicle_state sys)
            \<lparr>motor_speed_setting := speed, motor_rpm := rpm,
             power_kw := spec_power speed (battery_percentage (vehicle_state sys)),
             motor_status := rpm > 3000, gear_ratio := gear\<rparr>,
         current_state = Some ((vehicle_state sys)
            \<lparr>motor_speed_setting := speed, motor_rpm := rpm,
             power_kw := spec_power speed (battery_percentage (vehicle_state sys)),
             motor_status := rpm > 3000, gear_ratio := gear\<rparr>)\<rparr>"
      using pass JObj by (simp add: set_motor_speed_unfold[OF Some] n rpm gear Let_def)
    have lines: "interleave (set_motor_speed_lines speed) sys =
        \<lparr>vehicle_state = (vehicle_state sys)
            \<lparr>motor_speed_setting := speed, motor_rpm := rpm,
             power_kw := spec_power speed (battery_percentage (vehicle_state sys)),
             motor_status := rpm > 3000, gear_ratio := gear\<rparr>,
         current_state = Some ((vehicle_state sys)
            \<lparr>motor_speed_setting := speed, motor_rpm := rpm,
             power_kw := spec_power speed (battery_percentage (vehicle_state sys)),
             motor_status := rpm > 3000, gear_ratio := gear\<rparr>)\<rparr>"
      by (simp add: set_motor_speed_lines_def rpm gear power_valid[OF v] HIGH_RPM_THRESHOLD_def)
    show ?thesis by (simp only: whole lines)
  qed
qed (use assms in \<open>simp_all add: set_motor_speed_checks_def\<close>)

lemma reachable_fully_updated:
  "fully_updated (vehicle_state (run es (startup t_doc t_mem))) \<and>
   (\<exists>doc. current_state (run es (startup t_doc t_mem)) = Some doc \<and> fully_updated doc)"
proof -
  have "system_consistent (run es (startup t_doc t_mem))"
    by (rule reachable_consistent)
  then show ?thesis
    by (auto simp: system_consistent_def consistent_def fully_updated_def split: option.splits)
qed

text \<open>
  C9, as stated: no schedule persists or shows a partially updated record. It fails. The
  request \<^verbatim>\<open>{"speed": 3}\<close> passes its checks at the start and runs line 279; the loop
  then runs one iteration and stores the dictionary, with speed level 3 but still rpm 0
  and gear \<open>N/N\<close>, where the tables give 4500 and \<open>8.1:1\<close>; a GetState is served this
  record.
\<close>

theorem partial_record_persisted:
  "set_motor_speed_checks (JObj [(''speed'', JInt 3)]) (startup ''t0'' ''t1'') = Inr (JInt 3, 3) \<and>
   current_state interrupted_speed_change = Some (vehicle_state interrupted_speed_change) \<and>
   get_vehicle_state interrupted_speed_change =
     StateRecord (vehicle_state interrupted_speed_change) \<and>
   motor_speed_setting (vehicle_state interrupted_speed_change) = 3 \<and>
   motor_rpm (vehicle_state interrupted_speed_change) = 0 \<and>
   gear_ratio (vehicle_state interrupted_speed_change) = ''N/N'' \<and>
   last_update (vehicle_state interrupted_speed_change) = ''t2'' \<and>
   RPM_SETTINGS 3 = Some 4500 \<and> GEAR_RATIOS 3 = Some ''8.1:1'' \<and>
   \<not> fully_updated (vehicle_state interrupted_speed_change)"
  by (simp add: interrupted_speed_change_def set_motor_speed_checks_def fully_updated_def eval_defs)

text \<open>
  C9, amended. The code applies no mutual exclusion. What holds is this: operations that
  run to completion one after the other never leave and never store a partially updated
  record (rpm and gear ratio are the table entries of the speed level, in the dictionary
  and in the stored document); and the statements of a motor-speed request, run without
  another thread in between, amount to the whole operation, a rejected request writing
  nothing.
\<close>

theorem whole_operations_fully_update:
  "(let sys = run es (startup t_doc t_mem)
    in fully_updated (vehicle_state sys) \<and>
       (\<exists>doc. current_state sys = Some doc \<and> get_vehicle_state sys = StateRecord doc \<and>
              fully_updated doc)) \<and>
   (set_motor_speed_checks data sys0 = Inr (v, speed) \<longrightarrow>
      interleave (set_motor_speed_lines speed) sys0 = snd (set_motor_speed data sys0)) \<and>
   (set_motor_speed_checks data sys0 = Inl r \<longrightarrow> set_motor_speed data sys0 = (r, sys0))"
  using reachable_fully_updated[of es t_doc t_mem]
  by (auto simp: Let_def get_vehicle_state_def set_motor_speed_checks_passes
      set_motor_speed_checks_rejects)

theorem whole_operations_fully_update_witness:
  "set_motor_speed_checks (JObj [(''speed'', JInt 3)]) (startup ''t0'' ''t1'') = Inr (JInt 3, 3) \<and>
   interleave (set_motor_speed_lines 3) (startup ''t0'' ''t1'') =
     snd (set_motor_speed (JObj [(''speed'', JInt 3)]) (startup ''t0'' ''t1'')) \<and>
   set_motor_speed_checks (JObj [(''speed'', JInt 7)]) (startup ''t0'' ''t1'') =
     Inl (ErrorResponse 400 ''Invalid speed setting (must be 0-4)'') \<and>
   set_motor_speed (JObj [(''speed'', JInt 7)]) (startup ''t0'' ''t1'') =
     (ErrorResponse 400 ''Invalid speed setting (must be 0-4)'', startup ''t0'' ''t1'') \<and>
   fully_updated (vehicle_state
     (run [PostMotorSpeed (JObj [(''speed'', JInt 3)]), Tick (1 / 2) (1 / 2) ''t2'']
        (startup ''t0'' ''t1''))) \<and>
   motor_rpm (vehicle_state
     (run [PostMotorSpeed (JObj [(''speed'', JInt 3)]), Tick (1 / 2) (1 / 2) ''t2'']
        (startup ''t0'' ''t1''))) = 4500"
  using whole_operations_fully_update
    [of "[PostMotorSpeed (JObj [(''speed'', JInt 3)]), Tick (1 / 2) (1 / 2) ''t2'']"
        "''t0''" "''t1''" "JObj [(''speed'', JInt 3)]" "startup ''t0'' ''t1''" "JInt 3" 3
        "ErrorResponse 400 ''Invalid speed setting (must be 0-4)''"]
    whole_operations_fully_update
    [of "[]" "''t0''" "''t1''" "JObj [(''speed'', JInt 7)]" "startup ''t0'' ''t1''" "JInt 7" 7
        "ErrorResponse 400 ''Invalid speed setting (must be 0-4)''"]
  by (simp add: set_motor_speed_checks_def set_motor_speed_lines_def fully_updated_def eval_defs)

end
